theory Spec2Isabelle
  imports Complex_Main
begin

section \<open>Errors, dates and timestamps\<close>

text \<open>
  The program is two Python classes: \<open>AlpacaClient\<close> (src/alpaca/client.py), a thin layer
  over the brokerage SDK, and \<open>AlpacaConnector\<close>
  (src/ingestion/connectors/alpaca_connector.py), which adds column validation, the
  backfill loop and the tradable-symbol filter.

  Every exception the code can meet is a constructor of \<open>error\<close>; a method returns
  \<open>error + 'a\<close>, with \<open>Inl\<close> for a raised exception. Each method of the source wraps its
  body in \<open>try: ... except Exception as e: logger.error(...); raise\<close>, which logs and
  raises the same exception again: in the model the \<open>Inl\<close> value is passed on unchanged.
  \<open>ProviderError\<close> stands for whatever the remote SDK raises.
\<close>

datatype error =
    OverflowError
  | ValueError
  | AttributeError
  | UnboundLocalError
  | KeyError
  | TypeError
  | SyntaxError
  | ProviderError string

text \<open>
  A \<open>datetime.date\<close> is its proleptic Gregorian ordinal (\<open>date.toordinal()\<close>: day 1 is
  0001-01-01), the representation \<open>datetime\<close> itself uses for arithmetic.
  \<open>ymd2ord\<close> is the ordinal of a calendar date, \<open>date_max\<close> the ordinal of
  \<open>date.max\<close> = 9999-12-31. \<open>date + timedelta(days=n)\<close> adds \<open>n\<close> to the ordinal and
  raises OverflowError when the result leaves \<open>1 .. date_max\<close>.
\<close>

type_synonym date = int

definition is_leap :: "int \<Rightarrow> bool" where
  "is_leap y = (y mod 4 = 0 \<and> (y mod 100 \<noteq> 0 \<or> y mod 400 = 0))"

definition days_before_year :: "int \<Rightarrow> int" where
  "days_before_year y = (y - 1) * 365 + (y - 1) div 4 - (y - 1) div 100 + (y - 1) div 400"

definition days_before_month :: "int \<Rightarrow> int \<Rightarrow> int" where
  "days_before_month y m =
     [0, 31, 59, 90, 120, 151, 181, 212, 243, 273, 304, 334] ! nat (m - 1)
       + (if m > 2 \<and> is_leap y then 1 else 0)"

definition ymd2ord :: "int \<Rightarrow> int \<Rightarrow> int \<Rightarrow> date" where
  "ymd2ord y m d = days_before_year y + days_before_month y m + d"

definition date_max :: date where
  "date_max = 3652059"

definition date_add :: "date \<Rightarrow> int \<Rightarrow> error + date" where
  "date_add d n = (if 0 < d + n \<and> d + n \<le> date_max then Inr (d + n) else Inl OverflowError)"

text \<open>
  A \<open>datetime\<close> is a date and the microsecond of its day (time zones play no part in
  the code modelled here). \<open>datetime.combine(d, datetime.min.time())\<close> is midnight of
  \<open>d\<close>, \<open>datetime.combine(d, datetime.max.time())\<close> is 23:59:59.999999 of \<open>d\<close>.
\<close>

type_synonym datetime = "date \<times> int"

definition combine_min :: "date \<Rightarrow> datetime" where
  "combine_min d = (d, 0)"

definition combine_max :: "date \<Rightarrow> datetime" where
  "combine_max d = (d, 86399999999)"

definition datetime_add_days :: "datetime \<Rightarrow> int \<Rightarrow> error + datetime" where
  "datetime_add_days dt n =
     (case date_add (fst dt) n of Inl e \<Rightarrow> Inl e | Inr d \<Rightarrow> Inr (d, snd dt))"

text \<open>
  \<open>strftime('%Y-%m-%dT%H:%M:%SZ')\<close> prints a timestamp without its microseconds; the
  request that reaches the SDK carries the timestamp cut to the second.
\<close>

definition strftime_seconds :: "datetime \<Rightarrow> datetime" where
  "strftime_seconds dt = (fst dt, (snd dt div 1000000) * 1000000)"

text \<open>\<open>s.replace('Z', '+00:00')\<close>: every \<open>Z\<close> of the string becomes \<open>+00:00\<close>.\<close>

definition replace_Z :: "string \<Rightarrow> string" where
  "replace_Z s = concat (map (\<lambda>c. if c = CHR ''Z'' then ''+00:00'' else [c]) s)"

section \<open>Tables\<close>

text \<open>
  The tabular libraries are outside the repository. A table is modelled column by
  column: the named levels of its row index (the SDK's frames carry named levels), its
  data columns, and its number of rows.

  The code meets frames of two libraries. The SDK's \<open>.df\<close> is a pandas frame. Both
  modules import polars (\<open>import polars as pd\<close> in the connector, \<open>import polars as pl\<close>
  in the client), so every frame the code builds itself with \<open>DataFrame()\<close> is a polars
  frame. The code uses the pandas interface throughout (\<open>.empty\<close>, \<open>reset_index()\<close>,
  \<open>concat(..., ignore_index=True)\<close>); a polars frame has none of these, and asking for
  them raises AttributeError (TypeError for the keyword of \<open>concat\<close>).
\<close>

datatype cell = Num real | Str string | Time datetime | NaN

record table =
  index_cols :: "(string \<times> cell list) list"
  data_cols :: "(string \<times> cell list) list"
  nrows :: nat

datatype frame = PandasFrame table | PolarsFrame table

text \<open>\<open>DataFrame()\<close> of polars: no columns and no rows.\<close>

definition empty_table :: table where
  "empty_table = \<lparr>index_cols = [], data_cols = [], nrows = 0\<rparr>"

definition polars_DataFrame :: frame where
  "polars_DataFrame = PolarsFrame empty_table"

text \<open>\<open>.empty\<close> of a pandas frame: true when an axis has length zero.\<close>

definition is_empty :: "table \<Rightarrow> bool" where
  "is_empty t = (data_cols t = [] \<or> nrows t = 0)"

text \<open>\<open>frame.empty\<close>, as the connector asks it of whatever frame it holds.\<close>

fun frame_empty :: "frame \<Rightarrow> error + bool" where
  "frame_empty (PandasFrame t) = Inr (is_empty t)"
| "frame_empty (PolarsFrame t) = Inl AttributeError"

text \<open>
  \<open>reset_index()\<close> of a pandas frame: the index levels become the leading data columns
  and the rows are numbered from 0. pandas raises ValueError when the name of a level is
  already the name of a column or of another level.
\<close>

definition reset_index :: "table \<Rightarrow> error + table" where
  "reset_index t =
     (if distinct (map fst (index_cols t))
         \<and> list_all (\<lambda>n. n \<notin> set (map fst (data_cols t))) (map fst (index_cols t))
      then Inr (t\<lparr>index_cols := [], data_cols := index_cols t @ data_cols t\<rparr>)
      else Inl ValueError)"

fun frame_reset_index :: "frame \<Rightarrow> error + table" where
  "frame_reset_index (PandasFrame t) = reset_index t"
| "frame_reset_index (PolarsFrame t) = Inl AttributeError"

text \<open>
  \<open>bars.column\<close>: a data frame has no attribute \<open>column\<close> (its column index is
  \<open>columns\<close>). An attribute that is not found is looked up among the column names:
  where the table holds a column called \<open>column\<close> the access yields that column, a
  series, and \<open>col not in series\<close> tests the row labels of the series, which after
  \<open>reset_index()\<close> are the row numbers. Otherwise the access raises AttributeError.
  \<open>getattr_column\<close> returns the labels that \<open>in\<close> tests.
\<close>

definition getattr_column :: "table \<Rightarrow> error + cell list" where
  "getattr_column t =
     (case map_of (data_cols t) ''column'' of
        None \<Rightarrow> Inl AttributeError
      | Some vs \<Rightarrow> Inr (map (\<lambda>i. Num (real i)) [0..<nrows t]))"

text \<open>\<open>bars[names]\<close>: the named columns in the order asked for; KeyError when one is
  absent.\<close>

fun select_columns :: "table \<Rightarrow> string list \<Rightarrow> error + (string \<times> cell list) list" where
  "select_columns t [] = Inr []"
| "select_columns t (c # cs) =
     (case map_of (data_cols t) c of
        None \<Rightarrow> Inl KeyError
      | Some vs \<Rightarrow>
          (case select_columns t cs of
             Inl e \<Rightarrow> Inl e
           | Inr rest \<Rightarrow> Inr ((c, vs) # rest)))"

text \<open>\<open>frame[name] = v\<close>: a column holding \<open>v\<close> in every row, replacing a column of
  that name or else added last.\<close>

definition set_column :: "table \<Rightarrow> string \<Rightarrow> cell \<Rightarrow> table" where
  "set_column t name v =
     (if name \<in> fst ` set (data_cols t)
      then t\<lparr>data_cols := map (\<lambda>(n, vs). if n = name then (n, replicate (nrows t) v) else (n, vs))
                               (data_cols t)\<rparr>
      else t\<lparr>data_cols := data_cols t @ [(name, replicate (nrows t) v)]\<rparr>)"

section \<open>The remote provider\<close>

text \<open>
  The SDK, the clock, the ISO-8601 parser of the standard library and the floating-point
  mean of pandas are parameters of the model, collected in \<open>env\<close>. Within one call the
  provider is a function of the request: the same request gets the same answer.
  \<^item> \<open>now\<close>: \<open>datetime.now()\<close>;
  \<^item> \<open>fromisoformat\<close>: \<open>datetime.fromisoformat\<close>, which raises ValueError on a string it
    does not accept;
  \<^item> \<open>api_get_bars\<close>: \<open>self.api.get_bars(symbols, timeframe, start=, end=, limit=).df\<close>,
    a pandas frame;
  \<^item> \<open>api_get_latest_quote\<close>: \<open>self.api.get_latest_quote(symbol)\<close>;
  \<^item> \<open>api_list_assets\<close>: \<open>self.api.list_assets(status=, asset_class=)\<close>;
  \<^item> \<open>series_mean\<close>: the mean that \<open>Series.mean()\<close> computes in floating point for the
    numbers of a column (a float is a real number; the rounding of the sum and of the
    division is the library's).
\<close>

record raw_quote =
  quote_bp :: real
  quote_bs :: int
  quote_ap :: real
  quote_as :: int
  quote_t :: datetime

record asset =
  asset_id :: string
  symbol :: string
  asset_name :: string
  exchange :: string
  tradable :: bool

record env =
  now :: datetime
  fromisoformat :: "string \<Rightarrow> error + datetime"
  api_get_bars :: "string list \<Rightarrow> string \<Rightarrow> datetime \<Rightarrow> datetime \<Rightarrow> int option \<Rightarrow> error + table"
  api_get_latest_quote :: "string \<Rightarrow> error + raw_quote"
  api_list_assets :: "string \<Rightarrow> string \<Rightarrow> error + asset list"
  series_mean :: "real list \<Rightarrow> real"

section \<open>The client\<close>

text \<open>A timestamp argument of \<open>get_bars\<close>: \<open>None\<close>, an ISO-8601 string or a
  \<open>datetime\<close>.\<close>

datatype dt_arg = DtNone | DtStr string | DtVal datetime

text \<open>
  client.py, lines 51 to 89. Line 81 asks \<open>.empty\<close> of the SDK's pandas frame; for a
  frame without rows line 83 returns \<open>pl.DataFrame()\<close>, a polars frame.
\<close>

definition get_bars ::
  "env \<Rightarrow> string list \<Rightarrow> string \<Rightarrow> dt_arg \<Rightarrow> dt_arg \<Rightarrow> int option \<Rightarrow> error + frame" where
  "get_bars env symbols timeframe start end limit =
     (case (case start of
              DtNone \<Rightarrow> datetime_add_days (now env) (- 1)
            | DtStr s \<Rightarrow> fromisoformat env (replace_Z s)
            | DtVal dt \<Rightarrow> Inr dt) of
        Inl e \<Rightarrow> Inl e
      | Inr start' \<Rightarrow>
          (case (case end of
                   DtNone \<Rightarrow> Inr (now env)
                 | DtStr s \<Rightarrow> fromisoformat env (replace_Z s)
                 | DtVal dt \<Rightarrow> Inr dt) of
             Inl e \<Rightarrow> Inl e
           | Inr end' \<Rightarrow>
               (case api_get_bars env symbols timeframe
                       (strftime_seconds start') (strftime_seconds end') limit of
                  Inl e \<Rightarrow> Inl e
                | Inr bars \<Rightarrow>
                    if is_empty bars then Inr polars_DataFrame else Inr (PandasFrame bars))))"

section \<open>The connector: fetch_bars\<close>

text \<open>
  alpaca_connector.py, lines 28 to 56. Line 34 asks \<open>.empty\<close> of the frame that
  \<open>get_bars\<close> returned. The loop over \<open>required_columns\<close> (lines 41 to 44) reads
  \<open>bars.column\<close> once per required name and returns \<open>pd.DataFrame()\<close> at the first name
  that \<open>in\<close> does not find; \<open>missing_required\<close> yields that name, \<open>None\<close> when the
  loop runs through, or the exception of the attribute access.
\<close>

definition required_columns :: "string list" where
  "required_columns = [''symbol'', ''timestamp'', ''open'', ''high'', ''low'', ''close'']"

fun missing_required :: "table \<Rightarrow> string list \<Rightarrow> error + string option" where
  "missing_required bars [] = Inr None"
| "missing_required bars (col # cols) =
     (case getattr_column bars of
        Inl e \<Rightarrow> Inl e
      | Inr labels \<Rightarrow>
          if Str col \<notin> set labels then Inr (Some col) else missing_required bars cols)"

definition fetch_bars ::
  "env \<Rightarrow> string list \<Rightarrow> string \<Rightarrow> dt_arg \<Rightarrow> dt_arg \<Rightarrow> int option \<Rightarrow> error + frame" where
  "fetch_bars env symbols timeframe start end limit =
     (case get_bars env symbols timeframe start end limit of
        Inl e \<Rightarrow> Inl e
      | Inr bars0 \<Rightarrow>
          (case frame_empty bars0 of
             Inl e \<Rightarrow> Inl e
           | Inr no_rows \<Rightarrow>
               if no_rows then Inr polars_DataFrame
               else
                 (case frame_reset_index bars0 of
                    Inl e \<Rightarrow> Inl e
                  | Inr bars \<Rightarrow>
                      (case missing_required bars required_columns of
                         Inl e \<Rightarrow> Inl e
                       | Inr (Some col) \<Rightarrow> Inr polars_DataFrame
                       | Inr None \<Rightarrow>
                           (case select_columns bars required_columns of
                              Inl e \<Rightarrow> Inl e
                            | Inr cols \<Rightarrow>
                                Inr (PandasFrame
                                  (set_column
                                    (set_column
                                      (set_column (bars\<lparr>data_cols := cols\<rparr>)
                                         ''timeframe'' (Str timeframe))
                                      ''source'' (Str ''alpaca''))
                                    ''fetched_at'' (Time (now env)))))))))"

section \<open>The connector: backfill\<close>

text \<open>
  alpaca_connector.py, lines 58 to 106. Line 68 of the file ends in a stray colon
  (\<open>end_date = datetime.now().date():\<close>). Python does not parse it and refuses the
  whole file with a SyntaxError, so that as the file stands no method of the connector
  can be called at all. The model follows the methods as the file spells them, so that
  each can be set against what is said of it, and gives line 68 no meaning of its own:
  the branch that holds it yields the SyntaxError.

  A date argument is \<open>None\<close>, an ISO-8601 string or a \<open>date\<close>; lines 62 to 70 turn it
  into a date.
\<close>

datatype date_arg = ArgNone | ArgStr string | ArgDate date

definition normalize_start :: "env \<Rightarrow> date_arg \<Rightarrow> error + date" where
  "normalize_start env start_date =
     (case start_date of
        ArgNone \<Rightarrow> (case datetime_add_days (now env) (- 30) of Inl e \<Rightarrow> Inl e | Inr dt \<Rightarrow> Inr (fst dt))
      | ArgStr s \<Rightarrow> (case fromisoformat env (replace_Z s) of Inl e \<Rightarrow> Inl e | Inr dt \<Rightarrow> Inr (fst dt))
      | ArgDate d \<Rightarrow> Inr d)"

definition normalize_end :: "env \<Rightarrow> date_arg \<Rightarrow> error + date" where
  "normalize_end env end_date =
     (case end_date of
        ArgNone \<Rightarrow> Inl SyntaxError
      | ArgStr s \<Rightarrow> (case fromisoformat env (replace_Z s) of Inl e \<Rightarrow> Inl e | Inr dt \<Rightarrow> Inr (fst dt))
      | ArgDate d \<Rightarrow> Inr d)"

text \<open>
  A window is the pair \<open>(current_date, batch_end)\<close> of one iteration: the batch that
  line 83 logs and lines 85 to 91 fetch, from midnight of \<open>current_date\<close> to the last
  instant of \<open>batch_end\<close>.
\<close>

type_synonym window = "date \<times> date"

definition fetch_window ::
  "env \<Rightarrow> string list \<Rightarrow> string \<Rightarrow> int \<Rightarrow> window \<Rightarrow> error + frame" where
  "fetch_window env symbols timeframe batch_size w =
     fetch_bars env symbols timeframe
       (DtVal (combine_min (fst w))) (DtVal (combine_max (snd w))) (Some batch_size)"

text \<open>
  The loop of lines 77 to 97, with its state made explicit: \<open>current_date\<close>,
  \<open>all_data\<close> and the windows requested so far (\<open>seen\<close>, in the order in which line 83
  logs them). The result is \<open>seen\<close> and either the exception that left the loop or the
  final \<open>all_data\<close>. Line 93 asks \<open>.empty\<close> of the frame that \<open>fetch_bars\<close> returned.
  The loop is not structurally recursive: it terminates because \<open>current_date\<close> grows
  with every iteration.
\<close>

function backfill_loop ::
  "env \<Rightarrow> string list \<Rightarrow> string \<Rightarrow> int \<Rightarrow> date \<Rightarrow> date \<Rightarrow> frame list \<Rightarrow> window list
     \<Rightarrow> window list \<times> (error + frame list)" where
  "backfill_loop env symbols timeframe batch_size end_date current_date all_data seen =
     (if current_date \<le> end_date then
        (case date_add current_date 7 of
           Inl e \<Rightarrow> (seen, Inl e)
         | Inr d7 \<Rightarrow>
             (case fetch_window env symbols timeframe batch_size (current_date, min d7 end_date) of
                Inl e \<Rightarrow> (seen @ [(current_date, min d7 end_date)], Inl e)
              | Inr batch_data \<Rightarrow>
                  (case frame_empty batch_data of
                     Inl e \<Rightarrow> (seen @ [(current_date, min d7 end_date)], Inl e)
                   | Inr no_rows \<Rightarrow>
                       (case date_add (min d7 end_date) 1 of
                          Inl e \<Rightarrow> (seen @ [(current_date, min d7 end_date)], Inl e)
                        | Inr next_date \<Rightarrow>
                            backfill_loop env symbols timeframe batch_size end_date next_date
                              (if \<not> no_rows then all_data @ [batch_data] else all_data)
                              (seen @ [(current_date, min d7 end_date)])))))
      else (seen, Inr all_data))"
  by pat_completeness auto
termination
proof (relation "measure (\<lambda>(env, symbols, timeframe, batch_size, end_date, current_date, all_data, seen).
                            nat (end_date + 1 - current_date))")
  show "wf (measure (\<lambda>(env, symbols, timeframe, batch_size, end_date, current_date, all_data, seen).
                            nat (end_date + 1 - current_date)))"
    by simp
next
  fix env :: env and symbols :: "string list" and timeframe :: string and batch_size :: int
    and end_date current_date :: date and all_data :: "frame list" and seen :: "window list"
    and d7 :: date and batch_data :: frame and no_rows :: bool and next_date :: date
  assume le: "current_date \<le> end_date"
    and d7: "date_add current_date 7 = Inr d7"
    and nx: "date_add (min d7 end_date) 1 = Inr next_date"
  from d7 have "d7 = current_date + 7"
    by (simp add: date_add_def split: if_splits)
  moreover from nx have "next_date = min d7 end_date + 1"
    by (simp add: date_add_def split: if_splits)
  ultimately have "current_date < next_date"
    using le by simp
  with le show "((env, symbols, timeframe, batch_size, end_date, next_date,
                  if \<not> no_rows then all_data @ [batch_data] else all_data,
                  seen @ [(current_date, min d7 end_date)]),
                 (env, symbols, timeframe, batch_size, end_date, current_date, all_data, seen))
                \<in> measure (\<lambda>(env, symbols, timeframe, batch_size, end_date, current_date, all_data, seen).
                            nat (end_date + 1 - current_date))"
    by simp
qed

declare backfill_loop.simps [simp del]

text \<open>
  The whole method: the arguments made dates, the loop, and lines 99 to 103. With
  batches in \<open>all_data\<close> line 100 calls \<open>pd.concat(all_data, ignore_index=True)\<close>;
  \<open>pd\<close> is polars, whose \<open>concat\<close> has no keyword \<open>ignore_index\<close>, and the call
  raises TypeError. Without batches line 103 returns \<open>pd.DataFrame()\<close>. The list of
  windows is returned beside the result.
\<close>

definition backfill ::
  "env \<Rightarrow> string list \<Rightarrow> string \<Rightarrow> date_arg \<Rightarrow> date_arg \<Rightarrow> int
     \<Rightarrow> window list \<times> (error + frame)" where
  "backfill env symbols timeframe start_date end_date batch_size =
     (case normalize_start env start_date of
        Inl e \<Rightarrow> ([], Inl e)
      | Inr sd \<Rightarrow>
          (case normalize_end env end_date of
             Inl e \<Rightarrow> ([], Inl e)
           | Inr ed \<Rightarrow>
               (case backfill_loop env symbols timeframe batch_size ed sd [] [] of
                  (seen, Inl e) \<Rightarrow> (seen, Inl e)
                | (seen, Inr all_data) \<Rightarrow>
                    (seen, if all_data \<noteq> [] then Inl TypeError else Inr polars_DataFrame))))"

section \<open>The client: quotes and assets\<close>

text \<open>
  client.py, lines 91 to 110. The SDK's quote object carries numeric fields, so
  \<open>float(quote.bp)\<close> and \<open>int(quote.bs)\<close> convert without change. The loop fills the
  dictionary \<open>quotes\<close> symbol by symbol; an exception of \<open>get_latest_quote\<close> leaves the
  loop and the method (logged and raised again at lines 108 to 110).
\<close>

record quote =
  bid_price :: real
  bid_size :: int
  ask_price :: real
  ask_size :: int
  timestamp :: datetime

definition snapshot :: "raw_quote \<Rightarrow> quote" where
  "snapshot q =
     \<lparr>bid_price = quote_bp q, bid_size = quote_bs q,
      ask_price = quote_ap q, ask_size = quote_as q, timestamp = quote_t q\<rparr>"

fun get_latest_quotes_loop ::
  "env \<Rightarrow> string list \<Rightarrow> (string \<rightharpoonup> quote) \<Rightarrow> error + (string \<rightharpoonup> quote)" where
  "get_latest_quotes_loop env [] quotes = Inr quotes"
| "get_latest_quotes_loop env (s # rest) quotes =
     (case api_get_latest_quote env s of
        Inl e \<Rightarrow> Inl e
      | Inr q \<Rightarrow> get_latest_quotes_loop env rest (quotes(s \<mapsto> snapshot q)))"

definition get_latest_quotes :: "env \<Rightarrow> string list \<Rightarrow> error + (string \<rightharpoonup> quote)" where
  "get_latest_quotes env symbols = get_latest_quotes_loop env symbols Map.empty"

text \<open>client.py, lines 122 to 138: the assets of the SDK, each rebuilt with the same
  five fields.\<close>

definition get_assets :: "env \<Rightarrow> string \<Rightarrow> string \<Rightarrow> error + asset list" where
  "get_assets env status asset_class = api_list_assets env status asset_class"

section \<open>The connector: get_tradable_symbols\<close>

text \<open>
  \<open>str.isalnum()\<close> on ASCII symbols: the string is not empty and each character is a
  digit or a letter.
\<close>

definition isalnum_char :: "char \<Rightarrow> bool" where
  "isalnum_char c =
     ((48 \<le> (of_char c :: nat) \<and> (of_char c :: nat) \<le> 57)
      \<or> (65 \<le> (of_char c :: nat) \<and> (of_char c :: nat) \<le> 90)
      \<or> (97 \<le> (of_char c :: nat) \<and> (of_char c :: nat) \<le> 122))"

definition isalnum :: "string \<Rightarrow> bool" where
  "isalnum s = (s \<noteq> [] \<and> list_all isalnum_char s)"

text \<open>
  \<open>bars[name].mean()\<close> on a pandas frame: KeyError without the column, TypeError on a
  cell that is no number; missing values are skipped, and the mean of no values is not a
  number (\<open>None\<close> here), which compares false with every threshold. The mean of the
  numbers is the library's floating-point mean, \<open>series_mean\<close>.
\<close>

fun numbers :: "cell list \<Rightarrow> error + real list" where
  "numbers [] = Inr []"
| "numbers (Num x # cs) = (case numbers cs of Inl e \<Rightarrow> Inl e | Inr xs \<Rightarrow> Inr (x # xs))"
| "numbers (NaN # cs) = numbers cs"
| "numbers (c # cs) = Inl TypeError"

definition column_mean :: "env \<Rightarrow> table \<Rightarrow> string \<Rightarrow> error + real option" where
  "column_mean env bars name =
     (case map_of (data_cols bars) name of
        None \<Rightarrow> Inl KeyError
      | Some vs \<Rightarrow>
          (case numbers vs of
             Inl e \<Rightarrow> Inl e
           | Inr xs \<Rightarrow> if xs = [] then Inr None else Inr (Some (series_mean env xs))))"

definition meets :: "real option \<Rightarrow> real \<Rightarrow> bool" where
  "meets avg threshold = (case avg of None \<Rightarrow> False | Some a \<Rightarrow> a \<ge> threshold)"

text \<open>
  Lines 167 to 177, the body of the inner \<open>try\<close> for one symbol: \<open>Inr True\<close> when the
  symbol is appended, \<open>Inr False\<close> when it is passed over, \<open>Inl\<close> for an exception, which
  the inner \<open>except\<close> (lines 178 to 180) logs before it goes on with the next asset.
  Line 170 asks \<open>.empty\<close> of the frame that \<open>get_bars\<close> returned.
\<close>

definition check_symbol :: "env \<Rightarrow> real \<Rightarrow> real \<Rightarrow> string \<Rightarrow> error + bool" where
  "check_symbol env min_price min_volume ticker =
     (case get_bars env [ticker] ''1Min'' DtNone DtNone (Some 5) of
        Inl e \<Rightarrow> Inl e
      | Inr (PolarsFrame bars) \<Rightarrow> Inl AttributeError
      | Inr (PandasFrame bars) \<Rightarrow>
          if is_empty bars then Inr False
          else
            (case column_mean env bars ''close'' of
               Inl e \<Rightarrow> Inl e
             | Inr avg_close \<Rightarrow>
                 (case column_mean env bars ''volume'' of
                    Inl e \<Rightarrow> Inl e
                  | Inr avg_volume \<Rightarrow>
                      Inr (meets avg_close min_price \<and> meets avg_volume min_volume))))"

text \<open>Lines 160 to 180, the body of the \<open>for\<close> loop run over a list of assets, with
  \<open>tradable_symbols\<close> as accumulator.\<close>

fun tradable_loop :: "env \<Rightarrow> real \<Rightarrow> real \<Rightarrow> asset list \<Rightarrow> string list \<Rightarrow> string list" where
  "tradable_loop env min_price min_volume [] tradable_symbols = tradable_symbols"
| "tradable_loop env min_price min_volume (a # rest) tradable_symbols =
     (if \<not> tradable a then tradable_loop env min_price min_volume rest tradable_symbols
      else if \<not> isalnum (symbol a)
        then tradable_loop env min_price min_volume rest tradable_symbols
      else
        (case check_symbol env min_price min_volume (symbol a) of
           Inl e \<Rightarrow> tradable_loop env min_price min_volume rest tradable_symbols
         | Inr False \<Rightarrow> tradable_loop env min_price min_volume rest tradable_symbols
         | Inr True \<Rightarrow>
             tradable_loop env min_price min_volume rest (tradable_symbols @ [symbol a])))"

text \<open>
  Lines 151 to 187. Line 155 binds \<open>assets\<close>, but line 159 reads
  \<open>for asset in asset:\<close>: the iterable is the loop variable itself, a local name that
  has no value yet when the loop starts. Python raises UnboundLocalError there; the
  outer \<open>except\<close> logs it and raises it again. \<open>loop_iterable\<close> is the value of the local
  \<open>asset\<close> at line 159: none.
\<close>

definition loop_iterable :: "asset list \<Rightarrow> asset list option" where
  "loop_iterable assets = None"

definition get_tradable_symbols ::
  "env \<Rightarrow> string \<Rightarrow> string \<Rightarrow> real \<Rightarrow> real \<Rightarrow> error + string list" where
  "get_tradable_symbols env status asset_class min_price min_volume =
     (case get_assets env status asset_class of
        Inl e \<Rightarrow> Inl e
      | Inr assets \<Rightarrow>
          (case loop_iterable assets of
             None \<Rightarrow> Inl UnboundLocalError
           | Some iterable \<Rightarrow> Inr (tradable_loop env min_price min_volume iterable [])))"


section \<open>Window lists\<close>



section \<open>Sample providers\<close>

text \<open>
  Concrete environments on which the theorems below are run. \<open>quiet_env\<close> has a provider
  without rows for any request, a parser that reads the two date strings of the
  specification's example, a clock at noon of 2024-02-01, and the floating-point mean of
  the two columns of \<open>liquid_bars\<close> below (10 and 1000000, both exact). The others change one answer of
  the provider.
\<close>

definition sample_quote :: raw_quote where
  "sample_quote = \<lparr>quote_bp = 189.5, quote_bs = 3, quote_ap = 189.6, quote_as = 2,
                    quote_t = (738917, 43200000000)\<rparr>"

definition quiet_env :: env where
  "quiet_env =
     \<lparr>now = (738917, 43200000000),
      fromisoformat = (\<lambda>s. if s = ''2024-01-01'' then Inr (738886, 0)
                            else if s = ''2024-01-10'' then Inr (738895, 0)
                            else Inl ValueError),
      api_get_bars = (\<lambda>symbols timeframe start_str end_str limit. Inr empty_table),
      api_get_latest_quote = (\<lambda>s. Inr sample_quote),
      api_list_assets = (\<lambda>status asset_class. Inr []),
      series_mean = (\<lambda>xs. if xs = [9, 10, 10, 10, 11] then 10
                         else if xs = [1000000, 1000000, 1000000, 1000000, 1000000] then 1000000
                         else 0)\<rparr>"


text \<open>The provider has no quote for MSFT.\<close>

definition no_msft_env :: env where
  "no_msft_env =
     quiet_env\<lparr>api_get_latest_quote :=
       (\<lambda>s. if s = ''MSFT'' then Inl (ProviderError ''no quote'') else Inr sample_quote)\<rparr>"

text \<open>One bar of AAPL, indexed by its timestamp; \<open>bars_without_close\<close> lacks the
  required column \<open>close\<close>, \<open>bars_complete\<close> has every required column and the
  volume.\<close>

definition bars_without_close :: table where
  "bars_without_close =
     \<lparr>index_cols = [(''timestamp'', [Time (738886, 52200000000)])],
      data_cols = [(''symbol'', [Str ''AAPL'']), (''open'', [Num 187.15]),
                   (''high'', [Num 188.44]), (''low'', [Num 183.89]),
                   (''volume'', [Num 82488700])],
      nrows = 1\<rparr>"

definition bars_complete :: table where
  "bars_complete =
     \<lparr>index_cols = [(''timestamp'', [Time (738886, 52200000000)])],
      data_cols = [(''symbol'', [Str ''AAPL'']), (''open'', [Num 187.15]),
                   (''high'', [Num 188.44]), (''low'', [Num 183.89]),
                   (''close'', [Num 185.64]), (''volume'', [Num 82488700])],
      nrows = 1\<rparr>"

definition bars_env :: "table \<Rightarrow> env" where
  "bars_env bars =
     quiet_env\<lparr>api_get_bars := (\<lambda>symbols timeframe start_str end_str limit. Inr bars)\<rparr>"

text \<open>Providers for the tradable-symbol filter: a list of assets, and per symbol the
  answer to the request for its recent bars.\<close>

definition stock :: "string \<Rightarrow> bool \<Rightarrow> asset" where
  "stock name flag =
     \<lparr>asset_id = name, symbol = name, asset_name = name, exchange = ''NASDAQ'',
      tradable = flag\<rparr>"

definition assets_env :: "asset list \<Rightarrow> (string list \<Rightarrow> error + table) \<Rightarrow> env" where
  "assets_env assets bars_of =
     quiet_env\<lparr>api_get_bars := (\<lambda>symbols timeframe start_str end_str limit. bars_of symbols),
               api_list_assets := (\<lambda>status asset_class. Inr assets)\<rparr>"

text \<open>Five bars with mean close 10 and mean volume 1000000.\<close>

definition liquid_bars :: table where
  "liquid_bars =
     \<lparr>index_cols = [],
      data_cols = [(''close'', [Num 9, Num 10, Num 10, Num 10, Num 11]),
                   (''volume'', [Num 1000000, Num 1000000, Num 1000000, Num 1000000, Num 1000000])],
      nrows = 5\<rparr>"

section \<open>The backfill loop: invariants\<close>












section \<open>What fetch_bars returns\<close>

text \<open>
  Line 42 reads \<open>bars.column\<close> where \<open>bars.columns\<close> is meant. On a pandas frame with
  rows the check of the required columns therefore never succeeds: it raises
  AttributeError, or, on a frame that has a column called \<open>column\<close>, it reports
  \<open>symbol\<close> as missing and line 44 returns the polars \<open>DataFrame()\<close>. On the polars frame
  that the client returns for no rows, line 34 raises AttributeError. So \<open>fetch_bars\<close>
  returns nothing but the polars \<open>DataFrame()\<close>, and lines 46 to 52 are never reached.
\<close>

lemma missing_required_required:
  "missing_required bars required_columns = Inl AttributeError
   \<or> missing_required bars required_columns = Inr (Some ''symbol'')"
  by (auto simp: required_columns_def getattr_column_def split: option.splits)

lemma fetch_bars_only_polars:
  assumes "fetch_bars env symbols timeframe start_arg end_arg limit = Inr result"
  shows "result = polars_DataFrame"
proof (cases "get_bars env symbols timeframe start_arg end_arg limit")
  case (Inl e)
  with assms show ?thesis by (simp add: fetch_bars_def)
next
  case got: (Inr bars0)
  show ?thesis
  proof (cases "frame_empty bars0")
    case (Inl e)
    with got assms show ?thesis by (simp add: fetch_bars_def)
  next
    case emp: (Inr no_rows)
    show ?thesis
    proof (cases no_rows)
      case True
      with got emp assms show ?thesis by (simp add: fetch_bars_def)
    next
      case False
      show ?thesis
      proof (cases "frame_reset_index bars0")
        case (Inl e)
        with got emp False assms show ?thesis by (simp add: fetch_bars_def)
      next
        case (Inr bars)
        from missing_required_required[of bars] show ?thesis
        proof
          assume "missing_required bars required_columns = Inl AttributeError"
          with got emp False Inr assms show ?thesis by (simp add: fetch_bars_def)
        next
          assume "missing_required bars required_columns = Inr (Some ''symbol'')"
          with got emp False Inr assms show ?thesis by (simp add: fetch_bars_def)
        qed
      qed
    qed
  qed
qed

lemma fetch_bars_no_rows_raises:
  "get_bars env symbols timeframe start_arg end_arg limit = Inr polars_DataFrame \<Longrightarrow>
   fetch_bars env symbols timeframe start_arg end_arg limit = Inl AttributeError"
  by (simp add: fetch_bars_def polars_DataFrame_def)

lemma frame_empty_polars: "frame_empty polars_DataFrame = Inl AttributeError"
  by (simp add: polars_DataFrame_def)

text \<open>
  With that the loop of backfill never gets past its first iteration: either the fetch
  raises, or line 93 raises on the polars frame that the fetch returned.
\<close>

lemma backfill_loop_first_iteration:
  assumes le: "current_date \<le> end_date"
    and d7: "date_add current_date 7 = Inr d7"
  shows "\<exists>e. backfill_loop env symbols timeframe batch_size end_date current_date all_data seen
             = (seen @ [(current_date, min d7 end_date)], Inl e)"
proof (cases "fetch_window env symbols timeframe batch_size (current_date, min d7 end_date)")
  case (Inl e)
  with le d7 show ?thesis by (subst backfill_loop.simps) simp
next
  case (Inr batch_data)
  then have "batch_data = polars_DataFrame"
    unfolding fetch_window_def by (rule fetch_bars_only_polars)
  with Inr le d7 show ?thesis
    by (subst backfill_loop.simps) (simp add: frame_empty_polars)
qed

section \<open>Evaluation on the sample providers\<close>

lemma ymd_2024_01: "ymd2ord 2024 1 d = 738885 + d"
  by (simp add: ymd2ord_def days_before_year_def days_before_month_def is_leap_def)



lemma complete_fetch:
  "fetch_window (bars_env bars_complete) symbols timeframe batch_size w = Inl AttributeError"
  by (simp add: fetch_window_def fetch_bars_def get_bars_def bars_env_def quiet_env_def
        bars_complete_def is_empty_def reset_index_def required_columns_def getattr_column_def)

section \<open>Claims about backfill\<close>

text \<open>
  C1 (the code departs from the claim). The claim: for \<open>start_date \<le> end_date\<close> the
  windows of backfill are contiguous, span at most 7 days each, and the last one ends at
  \<open>end_date\<close>. From 2024-01-01 to 2024-01-20, with a provider that has a bar of AAPL:
  the window from 2024-01-01 to 2024-01-08 is requested, its fetch raises AttributeError
  (line 42), and backfill raises; no window reaches 2024-01-20.
\<close>

theorem backfill_stops_after_first_window:
  "backfill (bars_env bars_complete) [''AAPL''] ''1Min'' (ArgDate 738886) (ArgDate 738905) 1000
     = ([(738886, 738893)], Inl AttributeError)"
  by (simp add: backfill_def normalize_start_def normalize_end_def backfill_loop.simps
        date_add_def date_max_def complete_fetch)

text \<open>
  C2 (the code departs from the claim). The claim: backfill with start_date
  "2024-01-01" and end_date "2024-01-10" makes exactly two windows, 2024-01-01 to
  2024-01-08 and 2024-01-09 to 2024-01-10. With a provider that has a bar of AAPL only
  the first window is requested, and backfill raises AttributeError.
\<close>

theorem backfill_example_one_window:
  "backfill (bars_env bars_complete) [''AAPL''] ''1Min''
     (ArgStr ''2024-01-01'') (ArgStr ''2024-01-10'') 1000
     = ([(ymd2ord 2024 1 1, ymd2ord 2024 1 8)], Inl AttributeError)"
proof -
  have p: "fromisoformat (bars_env bars_complete) ''2024-01-01'' = Inr (738886, 0)"
    "fromisoformat (bars_env bars_complete) ''2024-01-10'' = Inr (738895, 0)"
    by (simp_all add: bars_env_def quiet_env_def)
  show ?thesis
    by (simp add: ymd_2024_01 backfill_def normalize_start_def normalize_end_def replace_Z_def p
          backfill_loop.simps date_add_def date_max_def complete_fetch)
qed







section \<open>Claims about get_latest_quotes\<close>

lemma quotes_loop_fails:
  "s \<in> set symbols \<Longrightarrow> api_get_latest_quote env s = Inl e \<Longrightarrow>
   \<exists>e'. get_latest_quotes_loop env symbols quotes = Inl e'
     \<and> (\<exists>s'\<in>set symbols. api_get_latest_quote env s' = Inl e')"
proof (induction symbols arbitrary: quotes)
  case Nil
  then show ?case by simp
next
  case (Cons x rest)
  show ?case
  proof (cases "api_get_latest_quote env x")
    case (Inl e')
    then show ?thesis by auto
  next
    case (Inr q)
    with Cons.prems have "s \<in> set rest" by auto
    from Cons.IH[OF this Cons.prems(2), of "quotes(x \<mapsto> snapshot q)"] obtain e' s' where
      a: "get_latest_quotes_loop env rest (quotes(x \<mapsto> snapshot q)) = Inl e'"
      and b: "s' \<in> set rest" "api_get_latest_quote env s' = Inl e'"
      by blast
    have "get_latest_quotes_loop env (x # rest) quotes = Inl e'" using Inr a by simp
    moreover have "s' \<in> set (x # rest)" using b(1) by simp
    ultimately show ?thesis using b(2) by blast
  qed
qed

lemma quotes_loop_succeeds:
  "(\<And>s. s \<in> set symbols \<Longrightarrow> \<exists>q. api_get_latest_quote env s = Inr q) \<Longrightarrow>
   \<exists>m. get_latest_quotes_loop env symbols quotes = Inr m
     \<and> dom m = dom quotes \<union> set symbols
     \<and> (\<forall>s q. s \<in> set symbols \<and> api_get_latest_quote env s = Inr q \<longrightarrow> m s = Some (snapshot q))
     \<and> (\<forall>s. s \<notin> set symbols \<longrightarrow> m s = quotes s)"
proof (induction symbols arbitrary: quotes)
  case Nil
  then show ?case by simp
next
  case (Cons x rest)
  from Cons.prems[of x] obtain qx where qx: "api_get_latest_quote env x = Inr qx" by auto
  have "\<And>s. s \<in> set rest \<Longrightarrow> \<exists>q. api_get_latest_quote env s = Inr q"
    using Cons.prems by simp
  from Cons.IH[OF this, of "quotes(x \<mapsto> snapshot qx)"] obtain m where
    m: "get_latest_quotes_loop env rest (quotes(x \<mapsto> snapshot qx)) = Inr m"
    and d: "dom m = dom (quotes(x \<mapsto> snapshot qx)) \<union> set rest"
    and v: "\<forall>s q. s \<in> set rest \<and> api_get_latest_quote env s = Inr q \<longrightarrow> m s = Some (snapshot q)"
    and o: "\<forall>s. s \<notin> set rest \<longrightarrow> m s = (quotes(x \<mapsto> snapshot qx)) s"
    by blast
  have 1: "get_latest_quotes_loop env (x # rest) quotes = Inr m" using qx m by simp
  have 2: "dom m = dom quotes \<union> set (x # rest)" using d by auto
  have 3: "m s = Some (snapshot q)" if "s \<in> set (x # rest)" "api_get_latest_quote env s = Inr q" for s q
  proof (cases "s \<in> set rest")
    case True
    with v that show ?thesis by blast
  next
    case False
    with that have "s = x" by simp
    with False o qx that show ?thesis by simp
  qed
  have 4: "m s = quotes s" if "s \<notin> set (x # rest)" for s
    using o that by simp
  from 1 2 3 4 show ?case by blast
qed

text \<open>
  C8. If the quote of one of the requested symbols cannot be fetched,
  \<open>get_latest_quotes\<close> raises the exception of such a symbol and returns no mapping, not
  even a partial one; if every quote can be fetched it returns a mapping whose keys are
  exactly the requested symbols, each mapped to the snapshot of its quote: bid price and
  size, ask price and size, and timestamp, as the provider gave them.
\<close>

theorem get_latest_quotes_all_or_nothing:
  "((\<exists>s\<in>set symbols. \<exists>e. api_get_latest_quote env s = Inl e)
      \<longrightarrow> (\<exists>e. get_latest_quotes env symbols = Inl e
             \<and> (\<exists>s\<in>set symbols. api_get_latest_quote env s = Inl e)))
   \<and> ((\<forall>s\<in>set symbols. \<exists>q. api_get_latest_quote env s = Inr q)
      \<longrightarrow> (\<exists>m. get_latest_quotes env symbols = Inr m
             \<and> dom m = set symbols
             \<and> (\<forall>s\<in>set symbols. \<forall>q. api_get_latest_quote env s = Inr q
                   \<longrightarrow> m s = Some \<lparr>bid_price = quote_bp q, bid_size = quote_bs q,
                                   ask_price = quote_ap q, ask_size = quote_as q,
                                   timestamp = quote_t q\<rparr>)))"
proof (intro conjI impI)
  assume "\<exists>s\<in>set symbols. \<exists>e. api_get_latest_quote env s = Inl e"
  then obtain s e where "s \<in> set symbols" "api_get_latest_quote env s = Inl e" by blast
  from quotes_loop_fails[OF this, of Map.empty]
  show "\<exists>e. get_latest_quotes env symbols = Inl e
          \<and> (\<exists>s\<in>set symbols. api_get_latest_quote env s = Inl e)"
    by (simp add: get_latest_quotes_def)
next
  assume "\<forall>s\<in>set symbols. \<exists>q. api_get_latest_quote env s = Inr q"
  then have "\<And>s. s \<in> set symbols \<Longrightarrow> \<exists>q. api_get_latest_quote env s = Inr q" by blast
  from quotes_loop_succeeds[OF this, where quotes = Map.empty] obtain m where
    m: "get_latest_quotes_loop env symbols Map.empty = Inr m"
    "dom m = dom (Map.empty :: string \<rightharpoonup> quote) \<union> set symbols"
    "\<forall>s q. s \<in> set symbols \<and> api_get_latest_quote env s = Inr q \<longrightarrow> m s = Some (snapshot q)"
    by blast
  have 1: "get_latest_quotes env symbols = Inr m" using m(1) by (simp add: get_latest_quotes_def)
  have 2: "dom m = set symbols" using m(2) by simp
  have 3: "\<forall>s\<in>set symbols. \<forall>q. api_get_latest_quote env s = Inr q
             \<longrightarrow> m s = Some \<lparr>bid_price = quote_bp q, bid_size = quote_bs q,
                             ask_price = quote_ap q, ask_size = quote_as q,
                             timestamp = quote_t q\<rparr>"
    using m(3) by (simp add: snapshot_def)
  from 1 2 3
  show "\<exists>m. get_latest_quotes env symbols = Inr m \<and> dom m = set symbols
          \<and> (\<forall>s\<in>set symbols. \<forall>q. api_get_latest_quote env s = Inr q
                \<longrightarrow> m s = Some \<lparr>bid_price = quote_bp q, bid_size = quote_bs q,
                                ask_price = quote_ap q, ask_size = quote_as q,
                                timestamp = quote_t q\<rparr>)"
    by blast
qed

theorem get_latest_quotes_all_or_nothing_witness:
  "get_latest_quotes no_msft_env [''AAPL'', ''MSFT'', ''GOOG''] = Inl (ProviderError ''no quote'')
   \<and> (\<exists>m. get_latest_quotes quiet_env [''AAPL'', ''GOOG''] = Inr m
          \<and> dom m = set [''AAPL'', ''GOOG'']
          \<and> m ''AAPL'' = Some \<lparr>bid_price = 189.5, bid_size = 3, ask_price = 189.6,
                               ask_size = 2, timestamp = (738917, 43200000000)\<rparr>
          \<and> m ''GOOG'' = Some \<lparr>bid_price = 189.5, bid_size = 3, ask_price = 189.6,
                               ask_size = 2, timestamp = (738917, 43200000000)\<rparr>)"
proof -
  have bad: "\<exists>s\<in>set [''AAPL'', ''MSFT'', ''GOOG'']. \<exists>e. api_get_latest_quote no_msft_env s = Inl e"
    by (simp add: no_msft_env_def)
  have good: "\<forall>s\<in>set [''AAPL'', ''GOOG'']. \<exists>q. api_get_latest_quote quiet_env s = Inr q"
    by (simp add: quiet_env_def)
  have q: "api_get_latest_quote quiet_env s = Inr sample_quote" for s
    by (simp add: quiet_env_def)
  have only: "e = ProviderError ''no quote''"
    if "\<exists>s\<in>set [''AAPL'', ''MSFT'', ''GOOG'']. api_get_latest_quote no_msft_env s = Inl e" for e
    using that by (auto simp: no_msft_env_def split: if_splits)
  from get_latest_quotes_all_or_nothing[where symbols = "[''AAPL'', ''MSFT'', ''GOOG'']"
         and env = no_msft_env, THEN conjunct1, THEN mp, OF bad]
  obtain e where "get_latest_quotes no_msft_env [''AAPL'', ''MSFT'', ''GOOG''] = Inl e"
    "\<exists>s\<in>set [''AAPL'', ''MSFT'', ''GOOG'']. api_get_latest_quote no_msft_env s = Inl e"
    by blast
  with only[of e] have 1: "get_latest_quotes no_msft_env [''AAPL'', ''MSFT'', ''GOOG'']
                             = Inl (ProviderError ''no quote'')"
    by simp
  from get_latest_quotes_all_or_nothing[where symbols = "[''AAPL'', ''GOOG'']" and env = quiet_env,
         THEN conjunct2, THEN mp, OF good]
  obtain m where m: "get_latest_quotes quiet_env [''AAPL'', ''GOOG''] = Inr m"
    "dom m = set [''AAPL'', ''GOOG'']"
    "\<forall>s\<in>set [''AAPL'', ''GOOG'']. \<forall>q. api_get_latest_quote quiet_env s = Inr q
        \<longrightarrow> m s = Some \<lparr>bid_price = quote_bp q, bid_size = quote_bs q,
                        ask_price = quote_ap q, ask_size = quote_as q, timestamp = quote_t q\<rparr>"
    by blast
  from m(3) q have "m ''AAPL'' = Some \<lparr>bid_price = 189.5, bid_size = 3, ask_price = 189.6,
                               ask_size = 2, timestamp = (738917, 43200000000)\<rparr>"
    "m ''GOOG'' = Some \<lparr>bid_price = 189.5, bid_size = 3, ask_price = 189.6,
                               ask_size = 2, timestamp = (738917, 43200000000)\<rparr>"
    by (simp_all add: sample_quote_def)
  with 1 m(1,2) show ?thesis by blast
qed

section \<open>Claims about fetch_bars\<close>

text \<open>
  C3 (the code departs from the claim). The claim: \<open>fetch_bars\<close> returns an empty table,
  and does not raise, when the provider returns no rows and when a required column is
  missing. The provider answers with one bar that lacks the column \<open>close\<close>:
  \<open>fetch_bars\<close> raises AttributeError (line 42). It raises as well when the provider
  returns no rows (line 34, \<open>fetch_bars_no_rows_raises\<close>).
\<close>

theorem fetch_bars_missing_column_raises:
  "fetch_bars (bars_env bars_without_close) [''AAPL''] ''1Min'' DtNone DtNone None = Inl AttributeError"
  by (simp add: fetch_bars_def get_bars_def bars_env_def quiet_env_def bars_without_close_def
        datetime_add_days_def date_add_def date_max_def is_empty_def reset_index_def
        required_columns_def getattr_column_def)

lemma fetch_bars_no_rows_example:
  "fetch_bars quiet_env [''AAPL''] ''1Min'' DtNone DtNone None = Inl AttributeError"
  by (simp add: fetch_bars_def get_bars_def quiet_env_def datetime_add_days_def date_add_def
        date_max_def is_empty_def empty_table_def polars_DataFrame_def)

lemma fetch_bars_complete_raises:
  "fetch_bars (bars_env bars_complete) [''AAPL''] ''1Min'' DtNone DtNone None = Inl AttributeError"
  by (simp add: fetch_bars_def get_bars_def bars_env_def quiet_env_def bars_complete_def
        datetime_add_days_def date_add_def date_max_def is_empty_def reset_index_def
        required_columns_def getattr_column_def)

text \<open>
  A statement about the non-empty results of \<open>fetch_bars\<close>, such as the list of their
  columns (C4), has no instance on this code: by \<open>fetch_bars_only_polars\<close> there are no
  such results, and a bar with every required column makes the call raise
  (\<open>fetch_bars_complete_raises\<close>).
\<close>

section \<open>Claims about get_tradable_symbols\<close>

text \<open>
  Line 159 iterates over the unbound local \<open>asset\<close>, so the method raises
  UnboundLocalError whenever the asset list could be fetched, and raises the provider's
  exception otherwise: it never returns a list.
\<close>

lemma get_tradable_symbols_raises:
  "\<exists>e. get_tradable_symbols env status asset_class min_price min_volume = Inl e"
  by (simp add: get_tradable_symbols_def loop_iterable_def split: sum.splits)

text \<open>
  C5 (the code departs from the claim). The claim: a tradable, alphanumeric symbol is in
  the returned list if and only if its mean close and mean volume reach the thresholds.
  AAPL is tradable, with mean close 10 and mean volume 1000000 against thresholds 5 and
  500000: no list is returned, the call raises UnboundLocalError.
\<close>

theorem tradable_threshold_never_reached:
  "get_tradable_symbols (assets_env [stock ''AAPL'' True] (\<lambda>symbols. Inr liquid_bars))
     ''active'' ''us_equity'' 5 500000 = Inl UnboundLocalError"
  by (simp add: get_tradable_symbols_def get_assets_def assets_env_def quiet_env_def loop_iterable_def)

text \<open>
  C7 (the code departs from the claim). The claim: when the bars of one symbol cannot be
  fetched, that symbol alone is skipped and the call returns the others. The provider
  fails for AAPL and has liquid bars for MSFT: the call raises UnboundLocalError before
  any bars are requested.
\<close>

theorem tradable_isolation_never_reached:
  "get_tradable_symbols
     (assets_env [stock ''AAPL'' True, stock ''MSFT'' True]
        (\<lambda>symbols. if symbols = [''AAPL''] then Inl (ProviderError ''timeout'') else Inr liquid_bars))
     ''active'' ''us_equity'' 5 500000 = Inl UnboundLocalError"
  by (simp add: get_tradable_symbols_def get_assets_def assets_env_def quiet_env_def loop_iterable_def)

text \<open>
  A statement about the symbols of the returned list, such as that none of them is
  non-alphanumeric or not tradable (C6), has no instance on this code, since no list is
  returned (\<open>get_tradable_symbols_raises\<close>).

  The body of the loop (lines 160 to 180), run on a list of assets by \<open>tradable_loop\<close>,
  does what is said of the method: equality with a threshold counts, a symbol that is not
  alphanumeric or not tradable is left out, and a symbol whose bars cannot be fetched is
  skipped.
\<close>

lemma liquid_check:
  "check_symbol (assets_env assets (\<lambda>symbols. Inr liquid_bars)) 10 1000000 ticker = Inr True"
  by (simp add: check_symbol_def get_bars_def assets_env_def quiet_env_def liquid_bars_def
        datetime_add_days_def date_add_def date_max_def is_empty_def column_mean_def meets_def)

lemma loop_body_excludes_brk:
  "tradable_loop (assets_env assets (\<lambda>symbols. Inr liquid_bars)) 5 500000
     [stock ''AAPL'' True, stock ''BRK.B'' True, stock ''MSFT'' False] [] = [''AAPL'']"
  by (simp add: check_symbol_def get_bars_def assets_env_def quiet_env_def liquid_bars_def
        datetime_add_days_def date_add_def date_max_def is_empty_def column_mean_def meets_def
        stock_def isalnum_def isalnum_char_def)

lemma loop_body_skips_failed_symbol:
  "tradable_loop
     (assets_env assets
        (\<lambda>symbols. if symbols = [''AAPL''] then Inl (ProviderError ''timeout'') else Inr liquid_bars))
     5 500000 [stock ''AAPL'' True, stock ''MSFT'' True] [] = [''MSFT'']"
  by (simp add: check_symbol_def get_bars_def assets_env_def quiet_env_def liquid_bars_def
        datetime_add_days_def date_add_def date_max_def is_empty_def column_mean_def meets_def
        stock_def isalnum_def isalnum_char_def)

end
